theory Spec2Isabelle
  imports Main "HOL-Library.Sublist" "HOL-Library.List_Lexorder" "HOL-Library.Char_ord"
    "HOL-Library.Log_Nat" "HOL-Library.AList"
begin

section \<open>Text: characters and the string methods the scripts use\<close>

text \<open>
  Python text is represented by \<^typ>\<open>string\<close>. The character functions below are
  those of Python on ASCII text: letters are \<open>A-Z\<close> and \<open>a-z\<close>, decimal digits are
  \<open>0-9\<close>, and white space is what \<^verbatim>\<open>str.isspace\<close> and the pattern \<^verbatim>\<open>\s\<close> accept
  below code point 128, namely 9 to 13, 28 to 31 and 32. Characters from 128 on are
  kept as they are and belong to no class; Python's Unicode tables for them are not
  part of this development.
\<close>

definition upper_letters :: string where
  "upper_letters = ''ABCDEFGHIJKLMNOPQRSTUVWXYZ''"

definition lower_letters :: string where
  "lower_letters = ''abcdefghijklmnopqrstuvwxyz''"

definition is_upper :: "char \<Rightarrow> bool" where
  "is_upper c = (c \<in> set upper_letters)"

definition is_lower :: "char \<Rightarrow> bool" where
  "is_lower c = (c \<in> set lower_letters)"

definition is_alpha :: "char \<Rightarrow> bool" where
  "is_alpha c = (is_upper c \<or> is_lower c)"

definition is_digit :: "char \<Rightarrow> bool" where
  "is_digit c = (c \<in> set ''0123456789'')"

definition is_space :: "char \<Rightarrow> bool" where
  "is_space c =
     (c \<in> set [CHR 0x09, CHR 0x0A, CHR 0x0B, CHR 0x0C, CHR 0x0D,
                CHR 0x1C, CHR 0x1D, CHR 0x1E, CHR 0x1F, CHR 0x20])"

definition lower_char :: "char \<Rightarrow> char" where
  "lower_char c = (case map_of (zip upper_letters lower_letters) c of None \<Rightarrow> c | Some d \<Rightarrow> d)"

definition upper_char :: "char \<Rightarrow> char" where
  "upper_char c = (case map_of (zip lower_letters upper_letters) c of None \<Rightarrow> c | Some d \<Rightarrow> d)"

definition lower :: "string \<Rightarrow> string" where
  "lower s = map lower_char s"

definition upper :: "string \<Rightarrow> string" where
  "upper s = map upper_char s"

definition lstrip :: "string \<Rightarrow> string" where
  "lstrip s = dropWhile is_space s"

definition rstrip :: "string \<Rightarrow> string" where
  "rstrip s = rev (dropWhile is_space (rev s))"

definition strip :: "string \<Rightarrow> string" where
  "strip s = rstrip (lstrip s)"

text \<open>
  \<^verbatim>\<open>str.title\<close>: a letter that follows a letter is lower-cased, any other letter is
  upper-cased; whether a character counts as a letter is read off the original text.
\<close>

fun title_from :: "bool \<Rightarrow> string \<Rightarrow> string" where
  "title_from prev [] = []"
| "title_from prev (c # cs) =
     (if prev then lower_char c else upper_char c) # title_from (is_alpha c) cs"

definition title :: "string \<Rightarrow> string" where
  "title s = title_from False s"

text \<open>
  \<^verbatim>\<open>str.replace(old, new)\<close> for a non-empty \<open>old\<close>: the occurrences are replaced from the
  left and do not overlap. The counter is the number of characters of the current
  occurrence that are still to be skipped.
\<close>

fun replace_from :: "string \<Rightarrow> string \<Rightarrow> nat \<Rightarrow> string \<Rightarrow> string" where
  "replace_from old new k [] = []"
| "replace_from old new (Suc k) (c # cs) = replace_from old new k cs"
| "replace_from old new 0 (c # cs) =
     (if prefix old (c # cs) then new @ replace_from old new (length old - 1) cs
      else c # replace_from old new 0 cs)"

definition replace :: "string \<Rightarrow> string \<Rightarrow> string \<Rightarrow> string" where
  "replace old new s = replace_from old new 0 s"

section \<open>Regular expressions\<close>

text \<open>
  The patterns of the scripts are written as terms of \<open>re\<close> and run by a backtracking
  matcher that lists the ways a pattern can match at the head of a text, in the order in
  which Python's \<^verbatim>\<open>re\<close> module tries them; the first element is the match \<^verbatim>\<open>re\<close> reports.
  A repetition applies to one character class, which is all the patterns here need:
  \<open>Rep greedy lo hi p\<close> is \<^verbatim>\<open>[p]{lo,hi}\<close>, tried longest first when greedy and shortest
  first when lazy. A match carries the text that remains and the captured groups.
\<close>

datatype re =
    Chr "char \<Rightarrow> bool"
  | Eps
  | Seq re re
  | Alt re re
  | Rep bool nat "nat option" "char \<Rightarrow> bool"
  | Grp nat re
  | Eol

type_synonym groups = "nat \<rightharpoonup> string"

definition rep_counts :: "bool \<Rightarrow> nat \<Rightarrow> nat option \<Rightarrow> (char \<Rightarrow> bool) \<Rightarrow> string \<Rightarrow> nat list" where
  "rep_counts greedy lo hi p s =
     (let k = length (takeWhile p s);
          m = (case hi of None \<Rightarrow> k | Some h \<Rightarrow> min h k)
      in if m < lo then [] else if greedy then rev [lo..<Suc m] else [lo..<Suc m])"

fun mt :: "re \<Rightarrow> string \<Rightarrow> groups \<Rightarrow> (string \<times> groups) list" where
  "mt (Chr p) s g = (case s of [] \<Rightarrow> [] | c # cs \<Rightarrow> if p c then [(cs, g)] else [])"
| "mt Eps s g = [(s, g)]"
| "mt (Seq a b) s g = concat (map (\<lambda>(s', g'). mt b s' g') (mt a s g))"
| "mt (Alt a b) s g = mt a s g @ mt b s g"
| "mt (Rep greedy lo hi p) s g = map (\<lambda>n. (drop n s, g)) (rep_counts greedy lo hi p s)"
| "mt (Grp n a) s g =
     map (\<lambda>(s', g'). (s', g'(n \<mapsto> take (length s - length s') s))) (mt a s g)"
| "mt Eol s g = (if s = [] \<or> s = [CHR 0x0A] then [(s, g)] else [])"

definition re_match :: "re \<Rightarrow> string \<Rightarrow> (string \<times> groups) option" where
  "re_match r s = (case mt r s Map.empty of [] \<Rightarrow> None | x # _ \<Rightarrow> Some x)"

fun re_search :: "re \<Rightarrow> string \<Rightarrow> (string \<times> groups) option" where
  "re_search r [] = re_match r []"
| "re_search r (c # cs) =
     (case re_match r (c # cs) of Some x \<Rightarrow> Some x | None \<Rightarrow> re_search r cs)"

definition group :: "groups \<Rightarrow> nat \<Rightarrow> string" where
  "group g n = (case g n of None \<Rightarrow> [] | Some t \<Rightarrow> t)"

fun seqs :: "re list \<Rightarrow> re" where
  "seqs [] = Eps"
| "seqs (r # rs) = Seq r (seqs rs)"

definition ch :: "char \<Rightarrow> re" where
  "ch c = Chr (\<lambda>d. d = c)"

definition chi :: "char \<Rightarrow> re" where
  "chi c = Chr (\<lambda>d. lower_char d = lower_char c)"

definition lit :: "string \<Rightarrow> re" where
  "lit s = seqs (map ch s)"

definition liti :: "string \<Rightarrow> re" where
  "liti s = seqs (map chi s)"

definition opt :: "re \<Rightarrow> re" where
  "opt r = Alt r Eps"

definition star :: "(char \<Rightarrow> bool) \<Rightarrow> re" where
  "star p = Rep True 0 None p"

definition plus :: "(char \<Rightarrow> bool) \<Rightarrow> re" where
  "plus p = Rep True 1 None p"

definition one_of :: "string \<Rightarrow> char \<Rightarrow> bool" where
  "one_of cs c = (c \<in> set cs)"

definition not_newline :: "char \<Rightarrow> bool" where
  "not_newline c = (c \<noteq> CHR 0x0A)"

section \<open>normalize\_attack.py\<close>

text \<open>
  The keys of \<^verbatim>\<open>ATTACK_TYPE_MAPPING\<close> use two constructs only, literal characters and
  \<^verbatim>\<open>.*\<close>; \<open>pattern\<close> reads such a key. The table is the dictionary literal in its
  insertion order, which is the order the loop of \<^verbatim>\<open>normalize_attack_type\<close> visits.
\<close>

fun pattern :: "string \<Rightarrow> re" where
  "pattern [] = Eps"
| "pattern [c] = Seq (ch c) Eps"
| "pattern (c # d # cs) =
     (if c = CHR ''.'' \<and> d = CHR ''*'' then Seq (star not_newline) (pattern cs)
      else Seq (ch c) (pattern (d # cs)))"

definition ATTACK_TYPE_MAPPING :: "(string \<times> string) list" where
  "ATTACK_TYPE_MAPPING =
   [(''access.*control'', ''Access Control''),
    (''unauthorized'', ''Access Control''),
    (''unprotected'', ''Access Control''),
    (''privilege'', ''Access Control''),
    (''admin'', ''Access Control''),
    (''ownership'', ''Access Control''),
    (''permission'', ''Access Control''),
    (''auth'', ''Access Control''),
    (''lack.*of.*access'', ''Access Control''),
    (''insufficient.*access'', ''Access Control''),
    (''incorrect.*access'', ''Access Control''),
    (''improper.*access'', ''Access Control''),
    (''business.*logic'', ''Logic Flaw''),
    (''logic.*flaw'', ''Logic Flaw''),
    (''calculation'', ''Logic Flaw''),
    (''logic.*error'', ''Logic Flaw''),
    (''business.*rule'', ''Logic Flaw''),
    (''bad.*logic'', ''Logic Flaw''),
    (''business.*loigc'', ''Logic Flaw''),
    (''bussiness.*logic'', ''Logic Flaw''),
    (''incorrect.*logic'', ''Logic Flaw''),
    (''improper.*logic'', ''Logic Flaw''),
    (''rounding'', ''Precision''),
    (''precision'', ''Precision''),
    (''insufficient.*validation'', ''Incorrect Validation''),
    (''validation'', ''Incorrect Validation''),
    (''improper.*validation'', ''Incorrect Validation''),
    (''flash.*loan'', ''Flash Loan Attack''),
    (''flashloan'', ''Flash Loan Attack''),
    (''flash.*swap'', ''Flash Loan Attack''),
    (''loan.*attack'', ''Flash Loan Attack''),
    (''price.*manipulation'', ''Price Manipulation''),
    (''oracle.*manipulation'', ''Price Manipulation''),
    (''price.*oracle'', ''Price Manipulation''),
    (''manipulation'', ''Price Manipulation''),
    (''oracle.*attack'', ''Price Manipulation''),
    (''price.*feed'', ''Price Manipulation''),
    (''bad.*oracle'', ''Price Manipulation''),
    (''pool.*manipulation'', ''Price Manipulation''),
    (''pool.*imbalance'', ''Price Manipulation''),
    (''pair.*manipulate'', ''Price Manipulation''),
    (''reentrancy'', ''Reentrancy Attack''),
    (''re-entrancy'', ''Reentrancy Attack''),
    (''reentrant'', ''Reentrancy Attack''),
    (''read-only.*reentrancy'', ''Reentrancy Attack''),
    (''cross.*contract.*reentrancy'', ''Reentrancy Attack''),
    (''overflow'', ''Overflow''),
    (''underflow'', ''Overflow''),
    (''integer.*overflow'', ''Overflow''),
    (''integer.*underflow'', ''Overflow''),
    (''slippage'', ''Slippage Protection''),
    (''storage.*collision'', ''Storage Collision''),
    (''signature'', ''Signature Verification''),
    (''verification'', ''Signature Verification''),
    (''arbitrary.*calldata'', ''Arbitrary Calldata''),
    (''arbitrary.*call'', ''Arbitrary Calldata''),
    (''arbitrary.*yul'', ''Arbitrary Yul Calldata''),
    (''weak.*random.*mint'', ''Weak Random Mint''),
    (''arbitrary.*address'', ''Arbitrary Address Spoofing Attack''),
    (''k-verification'', ''K-Verification''),
    (''no.*slippage'', ''Slippage Protection''),
    (''lack.*slippage'', ''Slippage Protection''),
    (''phishing'', ''Social Engineering''),
    (''social'', ''Social Engineering''),
    (''scam'', ''Social Engineering''),
    (''fraud'', ''Social Engineering''),
    (''impersonation'', ''Social Engineering''),
    (''rugpull'', ''Social Engineering''),
    (''bug'', ''Implementation Bug''),
    (''error'', ''Implementation Bug''),
    (''incorrect'', ''Implementation Bug''),
    (''wrong'', ''Implementation Bug''),
    (''implementation.*flaw'', ''Implementation Bug''),
    (''coding.*error'', ''Implementation Bug''),
    (''design'', ''Protocol Design''),
    (''architecture'', ''Protocol Design''),
    (''specification'', ''Protocol Design''),
    (''design.*flaw'', ''Protocol Design''),
    (''front.*run'', ''Front-running Attack''),
    (''frontrun'', ''Front-running Attack''),
    (''mev'', ''Front-running Attack''),
    (''governance'', ''Governance Attack''),
    (''dao.*attack'', ''Governance Attack''),
    (''voting'', ''Governance Attack''),
    (''malicious.*proposal'', ''Governance Attack''),
    (''sandwich'', ''Sandwich Attack''),
    (''bridge'', ''Bridge Attack''),
    (''cross.*chain'', ''Bridge Attack''),
    (''inflation.*attack'', ''Inflation Attack''),
    (''compoundv2.*inflation'', ''Inflation Attack''),
    (''precision.*loss'', ''Precision Loss''),
    (''loss.*of.*precision'', ''Precision Loss''),
    (''self.*liquidation'', ''Self-Liquidation''),
    (''swap.*metapool'', ''Swap Metapool Attack''),
    (''private.*key'', ''Private Key Compromised''),
    (''key.*compromised'', ''Private Key Compromised''),
    (''token.*incompatible'', ''Token Incompatible''),
    (''incompatible.*token'', ''Token Incompatible''),
    (''protocol.*token.*incompatible'', ''Protocol Token Incompatible''),
    (''deflationary.*token'', ''Deflationary Token Incompatible''),
    (''weak.*rng'', ''Weak RNG''),
    (''bad.*randomness'', ''Weak RNG''),
    (''predicting.*random'', ''Weak RNG''),
    (''fake.*market'', ''Fake Market'')]"

definition searches :: "string \<Rightarrow> string \<Rightarrow> bool" where
  "searches p s = (re_search (pattern p) s \<noteq> None)"

fun first_label :: "(string \<times> string) list \<Rightarrow> string \<Rightarrow> string option" where
  "first_label [] s = None"
| "first_label ((p, l) # rows) s = (if searches p s then Some l else first_label rows s)"

definition prefix_re :: re where
  "prefix_re = seqs [Alt (lit ''attack'') (Alt (lit ''exploit'') (lit ''hack'')),
                     opt (ch CHR '':''), plus is_space]"

definition strip_prefix :: "string \<Rightarrow> string" where
  "strip_prefix s = (case re_match prefix_re s of None \<Rightarrow> s | Some (rest, _) \<Rightarrow> rest)"

definition cleaned :: "string \<Rightarrow> string" where
  "cleaned s = strip_prefix (strip (lower s))"

definition normalize_attack_type :: "string \<Rightarrow> string" where
  "normalize_attack_type attack_type =
     (if attack_type = [] then ''Unknown''
      else case first_label ATTACK_TYPE_MAPPING (cleaned attack_type) of
             Some l \<Rightarrow> l
           | None \<Rightarrow> title (cleaned attack_type))"

text \<open>
  \<open>no_match rows s\<close>: no key of \<open>rows\<close> is found in \<open>s\<close>; \<open>rows_before p\<close> are the rows the
  loop visits before it reaches the key \<open>p\<close>.
\<close>

definition no_match :: "(string \<times> string) list \<Rightarrow> string \<Rightarrow> bool" where
  "no_match rows s = (\<forall>(p, l) \<in> set rows. \<not> searches p s)"

definition rows_before :: "string \<Rightarrow> (string \<times> string) list" where
  "rows_before p = takeWhile (\<lambda>r. fst r \<noteq> p) ATTACK_TYPE_MAPPING"


section \<open>Numbers\<close>

text \<open>
  A Python \<^verbatim>\<open>float\<close> is a binary64 value: a rational, an infinity or a NaN. \<open>round_double\<close>
  rounds a rational to the nearest binary64 value, ties to even, as the conversion of a
  decimal text and the multiplication of two floats do. A value of magnitude \<open>2^e \<le> a\<close>
  \<open>< 2^(e+1)\<close> is a multiple of \<open>2^(e-52)\<close>, of \<open>2^(-1074)\<close> below the normal range (\<open>e < -1022\<close>), and
  a result of \<open>2^1024\<close> or more, which is \<open>2^53\<close> such multiples at \<open>e = 1023\<close>, is an infinity.
\<close>

datatype pyfloat = Finite rat | PosInf | NegInf | NaN

definition pow2 :: "int \<Rightarrow> rat" where
  "pow2 i = (if 0 \<le> i then 2 ^ nat i else 1 / 2 ^ nat (- i))"

definition binade :: "rat \<Rightarrow> int" where
  "binade a =
     (let (n, d) = quotient_of a; k = bitlen n - bitlen d
      in if pow2 k \<le> a then k else k - 1)"

definition round_half_even :: "rat \<Rightarrow> int" where
  "round_half_even q =
     (let n = \<lfloor>q\<rfloor>; d = q - of_int n
      in if d < 1 / 2 then n else if 1 / 2 < d then n + 1
         else if even n then n else n + 1)"

definition round_double :: "rat \<Rightarrow> pyfloat" where
  "round_double q =
     (if q = 0 then Finite 0
      else let a = \<bar>q\<bar>;
               e = max (binade a) (- 1022);
               m = round_half_even (a / pow2 (e - 52))
           in if 1024 \<le> e \<or> (e = 1023 \<and> m = 2 ^ 53)
              then (if 0 < q then PosInf else NegInf)
              else Finite ((if 0 < q then 1 else - 1) * of_int m * pow2 (e - 52)))"

text \<open>
  \<^verbatim>\<open>a * b\<close> on floats. The sign of a zero is not represented.
\<close>

fun fsign :: "pyfloat \<Rightarrow> int" where
  "fsign (Finite q) = (if q = 0 then 0 else if 0 < q then 1 else - 1)"
| "fsign PosInf = 1"
| "fsign NegInf = - 1"
| "fsign NaN = 0"

fun fmul :: "pyfloat \<Rightarrow> pyfloat \<Rightarrow> pyfloat" where
  "fmul (Finite a) (Finite b) = round_double (a * b)"
| "fmul x y =
     (if x = NaN \<or> y = NaN \<or> fsign x * fsign y = 0 then NaN
      else if fsign x * fsign y = 1 then PosInf else NegInf)"

text \<open>
  \<^verbatim>\<open>float(s)\<close> for a text of decimal digits and dots, the only texts the scripts convert:
  digits with at most one dot and at least one digit give the nearest float, any other
  text raises \<^verbatim>\<open>ValueError\<close>, here \<open>None\<close>.
\<close>

definition digit_val :: "char \<Rightarrow> nat" where
  "digit_val c = (case map_of (zip ''0123456789'' [0 ..< 10]) c of None \<Rightarrow> 0 | Some n \<Rightarrow> n)"

definition digits_val :: "string \<Rightarrow> nat" where
  "digits_val s = foldl (\<lambda>n c. 10 * n + digit_val c) 0 s"

definition float_of_text :: "string \<Rightarrow> pyfloat option" where
  "float_of_text s =
     (let ip = takeWhile (\<lambda>c. c \<noteq> CHR ''.'') s;
          fp = drop 1 (dropWhile (\<lambda>c. c \<noteq> CHR ''.'') s)
      in if list_all is_digit ip \<and> list_all is_digit fp \<and> ip @ fp \<noteq> []
         then Some (round_double (of_nat (digits_val (ip @ fp)) / 10 ^ length fp))
         else None)"

text \<open>
  A JSON number is loaded as a Python \<^verbatim>\<open>int\<close> or \<^verbatim>\<open>float\<close>. \<^verbatim>\<open>float(n)\<close> of an \<^verbatim>\<open>int\<close> rounds
  as above and raises \<^verbatim>\<open>OverflowError\<close> where the result would be infinite.
\<close>

datatype num = I int | F pyfloat

datatype error = JSONDecodeError | OverflowError | ValueError | StopIteration

fun float_of_num :: "num \<Rightarrow> error + pyfloat" where
  "float_of_num (F x) = Inr x"
| "float_of_num (I i) =
     (case round_double (of_int i) of Finite q \<Rightarrow> Inr (Finite q) | _ \<Rightarrow> Inl OverflowError)"

text \<open>\<^verbatim>\<open>lost != 0.0\<close> for a number.\<close>

fun nonzero :: "num \<Rightarrow> bool" where
  "nonzero (I i) = (i \<noteq> 0)"
| "nonzero (F (Finite q)) = (q \<noteq> 0)"
| "nonzero (F x) = True"


section \<open>update\_data.py: the parsers of the artifact text\<close>

definition py_or :: "string \<Rightarrow> string \<Rightarrow> string" where
  "py_or a b = (if a = [] then b else a)"

definition normalize_currency :: "string \<Rightarrow> string" where
  "normalize_currency token =
     (let t = strip (replace ''$'' ''USD'' (replace ''US$'' ''USD'' (upper token)))
      in if t \<in> {''USD$'', ''US D'', ''US'', ''U S D''} then ''USD'' else t)"

text \<open>
  The loss pattern of \<^verbatim>\<open>_parse_loss_and_currency\<close>, used with \<^verbatim>\<open>re.IGNORECASE\<close>:
  \<^verbatim>\<open>(?:Total\s+)?Lo(?:ss|st)\s*[:\-]\s*~?\s*\$?\s*([0-9][0-9,\.]*?)\s*([KMBkmb]?)\s*([A-Za-z$]{0,6})?\<close>.
  The first group ends in a lazy repetition.
\<close>

definition loss_re :: re where
  "loss_re = seqs
     [opt (Seq (liti ''Total'') (plus is_space)),
      liti ''Lo'', Alt (liti ''ss'') (liti ''st''),
      star is_space, Chr (one_of '':-''),
      star is_space, opt (ch CHR ''~''),
      star is_space, opt (ch CHR ''$''),
      star is_space,
      Grp 1 (Seq (Chr is_digit) (Rep False 0 None (\<lambda>c. is_digit c \<or> one_of '',.'' c))),
      star is_space,
      Grp 2 (opt (Chr (one_of ''KMBkmb''))),
      star is_space,
      opt (Grp 3 (Rep True 0 (Some 6) (\<lambda>c. is_alpha c \<or> c = CHR ''$'')))]"

definition multiplier :: "string \<Rightarrow> pyfloat" where
  "multiplier suf =
     (if suf = ''K'' then Finite 1000
      else if suf = ''M'' then Finite 1000000
      else if suf = ''B'' then Finite 1000000000
      else Finite 1)"

definition parse_loss_and_currency :: "string \<Rightarrow> pyfloat \<times> string" where
  "parse_loss_and_currency text =
     (if text = [] then (Finite 0, ''USD'')
      else case re_search loss_re text of
        None \<Rightarrow> (Finite 0, ''USD'')
      | Some (_, m) \<Rightarrow>
          let num_s = replace '','' [] (group m 1);
              suf = upper (group m 2);
              cur = normalize_currency (py_or (group m 3) ''USD'');
              base = (case float_of_text num_s of Some x \<Rightarrow> x | None \<Rightarrow> Finite 0)
          in (fmul base (multiplier suf), py_or cur ''USD''))"

text \<open>\<^verbatim>\<open>@Type\s*[:\-]\s*([^\n\r]+)\<close>, with \<^verbatim>\<open>re.IGNORECASE\<close>.\<close>

definition type_re :: re where
  "type_re = seqs
     [liti ''@Type'', star is_space, Chr (one_of '':-''), star is_space,
      Grp 1 (Rep True 1 None (\<lambda>c. c \<noteq> CHR 0x0A \<and> c \<noteq> CHR 0x0D))]"

definition parse_type :: "string \<Rightarrow> string" where
  "parse_type text =
     (if text = [] then []
      else case re_search type_re text of None \<Rightarrow> [] | Some (_, m) \<Rightarrow> strip (group m 1))"

text \<open>\<^verbatim>\<open>createSelectFork\(\s*\"([a-zA-Z0-9_\-]+)\"\<close>, case-sensitive.\<close>

definition chain_re :: re where
  "chain_re = seqs
     [lit ''createSelectFork('', star is_space, ch CHR 0x22,
      Grp 1 (Rep True 1 None (\<lambda>c. is_alpha c \<or> is_digit c \<or> one_of ''_-'' c)),
      ch CHR 0x22]"

definition chain_mapping :: "(string \<times> string) list" where
  "chain_mapping =
     [(''mainnet'', ''Ethereum''), (''eth_mainnet'', ''Ethereum''), (''ethereum'', ''Ethereum''),
      (''bsc'', ''BSC''), (''bnb'', ''BSC''),
      (''arbitrum'', ''Arbitrum''), (''arb'', ''Arbitrum''),
      (''base'', ''Base''),
      (''polygon'', ''Polygon''), (''matic'', ''Polygon''),
      (''optimism'', ''Optimism''), (''op'', ''Optimism''),
      (''fantom'', ''Fantom''),
      (''avalanche'', ''Avalanche''), (''avax'', ''Avalanche''),
      (''scroll'', ''Scroll''), (''blast'', ''Blast''), (''linea'', ''Linea'')]"

definition capitalize :: "string \<Rightarrow> string" where
  "capitalize s = (case s of [] \<Rightarrow> [] | c # cs \<Rightarrow> upper_char c # lower cs)"

definition parse_chain :: "string \<Rightarrow> string" where
  "parse_chain text =
     (if text = [] then ''Unknown''
      else case re_search chain_re text of
        None \<Rightarrow> ''Unknown''
      | Some (_, m) \<Rightarrow>
          let net = lower (group m 1)
          in case map_of chain_mapping net of Some l \<Rightarrow> l | None \<Rightarrow> capitalize net)"

definition pretty_default_name :: "string \<Rightarrow> string" where
  "pretty_default_name filename = replace ''_'' '' '' (replace ''_exp.sol'' [] filename)"

text \<open>
  \<^verbatim>\<open>_norm_start_ym\<close>: the digits of the argument, cut to six, or nothing when there are
  fewer than six (or no argument).
\<close>

definition norm_start_ym :: "string option \<Rightarrow> string option" where
  "norm_start_ym s =
     (case s of
        None \<Rightarrow> None
      | Some t \<Rightarrow>
          if t = [] then None
          else let digits = filter is_digit t
               in if 6 \<le> length digits then Some (take 6 digits) else None)"


section \<open>update\_data.py: the incident catalog\<close>

text \<open>
  The records of \<^verbatim>\<open>incidents.json\<close> are dictionaries with the keys \<^verbatim>\<open>date\<close>, \<^verbatim>\<open>name\<close>,
  \<^verbatim>\<open>type\<close>, \<^verbatim>\<open>Lost\<close>, \<^verbatim>\<open>lossType\<close>, \<^verbatim>\<open>Contract\<close> and, when a chain is known, \<^verbatim>\<open>chain\<close>;
  the specification calls them date, name, type, lossAmount, lossCurrency, contractPath
  and chain. The catalog is a list of such records, in the order of the file. A record
  whose \<^verbatim>\<open>Contract\<close> is missing is represented with the empty path, which the script
  treats alike.
\<close>

record incident =
  i_date :: string
  i_name :: string
  i_type :: string
  i_Lost :: num
  i_lossType :: string
  i_Contract :: string
  i_chain :: "string option"

text \<open>
  An entry of \<^verbatim>\<open>scripts/overrides.json\<close>: each key may be absent. \<^verbatim>\<open>links\<close> and
  \<^verbatim>\<open>references\<close> hold one text or a list of texts.
\<close>

datatype links = Link string | Links "string list"

record override =
  ov_date :: "string option"
  ov_name :: "string option"
  ov_type :: "string option"
  ov_Lost :: "num option"
  ov_lossType :: "string option"
  ov_loss_type :: "string option"
  ov_chain :: "string option"
  ov_links :: "links option"
  ov_references :: "links option"

text \<open>
  What reading a JSON file gives: the file does not exist, \<^verbatim>\<open>json.load\<close> raises, or
  \<^verbatim>\<open>json.load\<close> returns a value.
\<close>

datatype 'a loaded = Absent | Malformed | Content 'a

text \<open>
  The override file holds a list of items, each a dictionary with the path under
  \<^verbatim>\<open>contract\<close> or \<^verbatim>\<open>Contract\<close> (or something that is no dictionary), or a dictionary from
  paths to entries, or any other value.
\<close>

datatype ov_item = NotDict | Item "string option" "string option" override

datatype ov_raw = OvList "ov_item list" | OvDict "string \<rightharpoonup> override" | OvOther

fun add_item :: "ov_item \<Rightarrow> (string \<rightharpoonup> override) \<Rightarrow> (string \<rightharpoonup> override)" where
  "add_item NotDict out = out"
| "add_item (Item lo up ov) out =
     (let key = (case lo of
                   None \<Rightarrow> up
                 | Some k \<Rightarrow> if k = [] then up else Some k)
      in case key of
           None \<Rightarrow> out
         | Some k \<Rightarrow> if k = [] then out else out(k \<mapsto> ov))"

fun load_overrides :: "ov_raw loaded \<Rightarrow> (string \<rightharpoonup> override)" where
  "load_overrides Absent = Map.empty"
| "load_overrides Malformed = Map.empty"
| "load_overrides (Content (OvList items)) = fold add_item items Map.empty"
| "load_overrides (Content (OvDict raw)) = raw"
| "load_overrides (Content OvOther) = Map.empty"

text \<open>
  One walked file: its directory \<open>a_root\<close> and name \<open>a_f\<close>, the text read from it (nothing
  when the read raises), and the text of the first \<^verbatim>\<open>README\<close> candidate of its directory
  that can be read and is not empty (nothing when there is none).
\<close>

record artifact =
  a_root :: string
  a_f :: string
  a_text :: "string option"
  a_readme :: "string option"

text \<open>The local variables of the loop body that describe the incident of one file.\<close>

record cand =
  c_rel :: string
  c_name :: string
  c_date :: string
  c_type :: string
  c_lost :: num
  c_loss_type :: string
  c_chain :: string

definition path_join :: "string \<Rightarrow> string \<Rightarrow> string" where
  "path_join a b =
     (if b \<noteq> [] \<and> hd b = CHR ''/'' then b
      else if a = [] \<or> last a = CHR ''/'' then a @ b
      else a @ ''/'' @ b)"

text \<open>\<^verbatim>\<open>(\d{4})-(\d{2})\<close>, searched in the directory.\<close>

definition ym_re :: re where
  "ym_re = seqs [Grp 1 (Rep True 4 (Some 4) is_digit), ch CHR ''-'',
                 Grp 2 (Rep True 2 (Some 2) is_digit)]"

definition folder_ym :: "artifact \<Rightarrow> string option" where
  "folder_ym a =
     (case re_search ym_re (a_root a) of
        None \<Rightarrow> None
      | Some (_, m) \<Rightarrow> Some (group m 1 @ group m 2))"

definition skipped :: "string option \<Rightarrow> artifact \<Rightarrow> bool" where
  "skipped start_ym a =
     (\<not> suffix ''_exp.sol'' (a_f a) \<or>
      (case start_ym of
         None \<Rightarrow> False
       | Some s \<Rightarrow> (case folder_ym a of None \<Rightarrow> True | Some ym \<Rightarrow> ym < s)))"

text \<open>The defaults the loop body prepares before it reads the file.\<close>

definition defaults :: "artifact \<Rightarrow> cand" where
  "defaults a =
     \<lparr>c_rel = replace ''source/'' [] (replace [CHR 0x5C] ''/'' (path_join (a_root a) (a_f a))),
      c_name = replace ''_exp.sol'' [] (a_f a),
      c_date = (case folder_ym a of None \<Rightarrow> ''00000000'' | Some ym \<Rightarrow> ym @ ''01''),
      c_type = [],
      c_lost = F (Finite 0),
      c_loss_type = ''USD'',
      c_chain = ''Unknown''\<rparr>"

text \<open>
  The \<^verbatim>\<open>try\<close> block. When the file cannot be read nothing is assigned. Otherwise loss,
  currency, type and chain are parsed from the text; then, when a \<^verbatim>\<open>README\<close> text was
  found, the narrative-document analysis reassigns some of name, date, type, loss,
  currency and path. That analysis is the parameter \<open>readme_stage\<close>: the definitions and
  theorems below hold for whatever it computes.
\<close>

definition parsed :: "(artifact \<Rightarrow> cand \<Rightarrow> cand) \<Rightarrow> artifact \<Rightarrow> cand" where
  "parsed readme_stage a =
     (case a_text a of
        None \<Rightarrow> defaults a
      | Some text \<Rightarrow>
          let (lost, loss_type) = parse_loss_and_currency text;
              c = (defaults a)\<lparr>c_lost := F lost, c_loss_type := loss_type,
                     c_type := parse_type text, c_chain := parse_chain text\<rparr>
          in case a_readme a of
               None \<Rightarrow> c
             | Some readme_text \<Rightarrow> if readme_text = [] then c else readme_stage a c)"

definition get :: "'a option \<Rightarrow> 'a \<Rightarrow> 'a" where
  "get v d = (case v of None \<Rightarrow> d | Some x \<Rightarrow> x)"

definition apply_override :: "(string \<rightharpoonup> override) \<Rightarrow> cand \<Rightarrow> cand" where
  "apply_override overrides c =
     (case overrides (c_rel c) of
        None \<Rightarrow> c
      | Some ov \<Rightarrow>
          c\<lparr>c_date := get (ov_date ov) (c_date c),
            c_name := get (ov_name ov) (c_name c),
            c_type := get (ov_type ov) (c_type c),
            c_lost := get (ov_Lost ov) (c_lost c),
            c_loss_type := get (ov_lossType ov) (get (ov_loss_type ov) (c_loss_type c)),
            c_chain := get (ov_chain ov) (c_chain c)\<rparr>)"

text \<open>The path is already in the catalog: the fields of the entry are merged.\<close>

definition merge_item :: "cand \<Rightarrow> incident \<Rightarrow> error + incident" where
  "merge_item c item =
     (let item1 = (if c_date c \<noteq> [] then item\<lparr>i_date := c_date c\<rparr> else item);
          item2 = (if c_name c \<noteq> [] then item1\<lparr>i_name := c_name c\<rparr> else item1);
          item3 = (if c_type c \<noteq> [] then item2\<lparr>i_type := c_type c\<rparr> else item2)
      in case (if nonzero (c_lost c)
               then (case float_of_num (c_lost c) of
                       Inl e \<Rightarrow> Inl e
                     | Inr x \<Rightarrow> Inr (item3\<lparr>i_Lost := F x\<rparr>))
               else Inr item3) of
           Inl e \<Rightarrow> Inl e
         | Inr item4 \<Rightarrow>
             let item5 = (if c_loss_type c \<noteq> [] then item4\<lparr>i_lossType := c_loss_type c\<rparr>
                          else item4)
             in Inr (if c_chain c \<noteq> [] then item5\<lparr>i_chain := Some (c_chain c)\<rparr> else item5))"

text \<open>The path is new: a fresh entry.\<close>

definition new_item :: "string \<Rightarrow> cand \<Rightarrow> error + incident" where
  "new_item f c =
     (case float_of_num (c_lost c) of
        Inl e \<Rightarrow> Inl e
      | Inr x \<Rightarrow>
          Inr \<lparr>i_date = c_date c,
               i_name = py_or (c_name c) (pretty_default_name f),
               i_type = c_type c,
               i_Lost = F x,
               i_lossType = c_loss_type c,
               i_Contract = c_rel c,
               i_chain = (if c_chain c \<noteq> [] then Some (c_chain c) else None)\<rparr>)"

text \<open>
  \<^verbatim>\<open>existing_by_contract\<close> maps each non-empty path of the loaded catalog to its entry,
  the last one when a path occurs twice; the entry is given by its position, since the
  loop updates it in place. \<^verbatim>\<open>existing_contracts\<close> is the set of the keys of this map.
\<close>

definition existing_by_contract :: "incident list \<Rightarrow> (string \<rightharpoonup> nat)" where
  "existing_by_contract incidents =
     fold (\<lambda>(i, x) m. if i_Contract x \<noteq> [] then m(i_Contract x \<mapsto> i) else m)
       (enumerate 0 incidents) Map.empty"

definition existing_contracts :: "incident list \<Rightarrow> string set" where
  "existing_contracts incidents = dom (existing_by_contract incidents)"

definition step ::
  "(artifact \<Rightarrow> cand \<Rightarrow> cand) \<Rightarrow> (string \<rightharpoonup> override) \<Rightarrow> string option \<Rightarrow>
   (string \<rightharpoonup> nat) \<Rightarrow> artifact \<Rightarrow> incident list \<Rightarrow> error + incident list" where
  "step readme_stage overrides start_ym by_contract a incidents =
     (if skipped start_ym a then Inr incidents
      else let c = apply_override overrides (parsed readme_stage a)
           in case by_contract (c_rel c) of
                Some i \<Rightarrow>
                  (case merge_item c (incidents ! i) of
                     Inl e \<Rightarrow> Inl e
                   | Inr item \<Rightarrow> Inr (incidents[i := item]))
              | None \<Rightarrow>
                  (case new_item (a_f a) c of
                     Inl e \<Rightarrow> Inl e
                   | Inr item \<Rightarrow> Inr (incidents @ [item])))"

fun walk ::
  "(artifact \<Rightarrow> incident list \<Rightarrow> error + incident list) \<Rightarrow> artifact list \<Rightarrow>
   incident list \<Rightarrow> error + incident list" where
  "walk body [] incidents = Inr incidents"
| "walk body (a # files) incidents =
     (case body a incidents of
        Inl e \<Rightarrow> Inl e
      | Inr incidents' \<Rightarrow> walk body files incidents')"

text \<open>
  \<^verbatim>\<open>incidents.sort(key=lambda x: x["date"], reverse=True)\<close>: descending by date, records
  of equal date in their former order.
\<close>

definition sort_by_date_desc :: "incident list \<Rightarrow> incident list" where
  "sort_by_date_desc incidents = rev (sort_key i_date (rev incidents))"

text \<open>
  \<^verbatim>\<open>update_incidents\<close>. \<open>corpus\<close> lists the files in the order \<^verbatim>\<open>os.walk\<close> yields them. The
  result is an exception, or the list that is written to \<^verbatim>\<open>incidents.json\<close> and returned.
\<close>

definition update_incidents ::
  "(artifact \<Rightarrow> cand \<Rightarrow> cand) \<Rightarrow> ov_raw loaded \<Rightarrow> incident list loaded \<Rightarrow> artifact list \<Rightarrow>
   string option \<Rightarrow> bool \<Rightarrow> error + incident list" where
  "update_incidents readme_stage overrides_file store corpus start_ym preserve_order =
     (let overrides = load_overrides overrides_file;
          start = norm_start_ym start_ym
      in case store of
           Malformed \<Rightarrow> Inl JSONDecodeError
         | _ \<Rightarrow>
           let incidents = (case store of Content xs \<Rightarrow> xs | _ \<Rightarrow> [])
           in case walk (step readme_stage overrides start (existing_by_contract incidents))
                     corpus incidents of
                Inl e \<Rightarrow> Inl e
              | Inr result \<Rightarrow>
                  Inr (if preserve_order then result else sort_by_date_desc result))"

text \<open>
  The artifact of the end-to-end scenario: \<^verbatim>\<open>src/test/2025-07/foo_exp.sol\<close> under the
  corpus root \<^verbatim>\<open>source\<close>, with the three lines of the scenario and no \<^verbatim>\<open>README\<close> beside it.
\<close>

definition foo_artifact :: artifact where
  "foo_artifact =
     \<lparr>a_root = ''source/src/test/2025-07'',
      a_f = ''foo_exp.sol'',
      a_text = Some (''@Type: Price Manipulation'' @ [CHR 0x0A] @
                     ''Total Lost: 1.2M USD'' @ [CHR 0x0A] @
                     ''createSelectFork('' @ [CHR 0x22] @ ''arbitrum'' @ [CHR 0x22] @ '')''),
      a_readme = None\<rparr>"


section \<open>Auxiliary notions used in the proofs\<close>

text \<open>\<open>consumes C r\<close>: every character the pattern \<open>r\<close> can consume lies in \<open>C\<close>.\<close>

fun consumes :: "char set \<Rightarrow> re \<Rightarrow> bool" where
  "consumes C (Chr p) = (\<forall>c. p c \<longrightarrow> c \<in> C)"
| "consumes C Eps = True"
| "consumes C (Seq a b) = (consumes C a \<and> consumes C b)"
| "consumes C (Alt a b) = (consumes C a \<and> consumes C b)"
| "consumes C (Rep gr lo hi p) = (\<forall>c. p c \<longrightarrow> c \<in> C)"
| "consumes C (Grp n a) = consumes C a"
| "consumes C Eol = True"


section \<open>Facts about the matcher\<close>

lemma mt_pattern_plain:
  "CHR ''.'' \<notin> set p \<Longrightarrow>
   mt (pattern p) s g = (if prefix p s then [(drop (length p) s, g)] else [])"
proof (induction p arbitrary: s rule: pattern.induct)
  case 1
  then show ?case by simp
next
  case (2 c)
  then show ?case by (cases s) (auto simp: ch_def)
next
  case (3 c d cs)
  from "3.prems" have c: "c \<noteq> CHR ''.''" and rest: "CHR ''.'' \<notin> set (d # cs)"
    by auto
  from c have "\<not> (c = CHR ''.'' \<and> d = CHR ''*'')" by simp
  note IH = "3.IH"(2) [OF this rest]
  show ?case
  proof (cases s)
    case Nil
    with c show ?thesis by (simp add: ch_def)
  next
    case (Cons x xs)
    with c IH [of xs] show ?thesis by (simp add: ch_def)
  qed
qed

lemma re_search_iff:
  "re_search r s \<noteq> None \<longleftrightarrow> (\<exists>t. suffix t s \<and> mt r t Map.empty \<noteq> [])"
proof (induction s)
  case Nil
  then show ?case by (simp add: re_match_def split: list.splits)
next
  case (Cons c cs)
  note IH = this
  show ?case
  proof (cases "mt r (c # cs) Map.empty = []")
    case True
    then have "re_search r (c # cs) = re_search r cs" by (simp add: re_match_def)
    moreover have "(\<exists>t. suffix t (c # cs) \<and> mt r t Map.empty \<noteq> []) \<longleftrightarrow>
        (\<exists>t. suffix t cs \<and> mt r t Map.empty \<noteq> [])"
      using True by (auto simp: suffix_Cons)
    ultimately show ?thesis using IH by simp
  next
    case False
    then have "re_search r (c # cs) \<noteq> None"
      by (simp add: re_match_def split: list.splits)
    moreover have "suffix (c # cs) (c # cs)" by simp
    ultimately show ?thesis using False by blast
  qed
qed

lemma searches_plain:
  assumes "CHR ''.'' \<notin> set p"
  shows "searches p s \<longleftrightarrow> sublist p s"
proof -
  have "searches p s \<longleftrightarrow> (\<exists>t. suffix t s \<and> prefix p t)"
    unfolding searches_def re_search_iff by (auto simp: mt_pattern_plain [OF assms])
  then show ?thesis by (simp add: sublist_altdef')
qed

lemma rep_counts_le: "n \<in> set (rep_counts gr lo hi p s) \<Longrightarrow> n \<le> length (takeWhile p s)"
  by (auto simp: rep_counts_def Let_def split: if_splits option.splits)

lemma take_takeWhile_set:
  assumes "n \<le> length (takeWhile p s)"
  shows "set (take n s) \<subseteq> {c. p c}"
proof -
  from assms have "take n (takeWhile p s @ dropWhile p s) = take n (takeWhile p s)"
    by (simp del: takeWhile_dropWhile_id)
  then have "take n s = take n (takeWhile p s)" by simp
  then show ?thesis by (auto dest: in_set_takeD set_takeWhileD)
qed

lemma mt_consumes:
  "consumes C r \<Longrightarrow> (s', g') \<in> set (mt r s g) \<Longrightarrow> \<exists>pre. s = pre @ s' \<and> set pre \<subseteq> C"
proof (induction r arbitrary: s g s' g')
  case (Chr p)
  then show ?case by (cases s) (auto split: if_splits)
next
  case Eps
  then show ?case by simp
next
  case (Seq a b)
  from Seq.prems obtain s1 g1 where 1: "(s1, g1) \<in> set (mt a s g)" and 2: "(s', g') \<in> set (mt b s1 g1)"
    by auto
  from Seq.prems(1) have ca: "consumes C a" and cb: "consumes C b" by simp_all
  from Seq.IH(1) [OF ca 1] obtain p1 where p1: "s = p1 @ s1" "set p1 \<subseteq> C" by blast
  from Seq.IH(2) [OF cb 2] obtain p2 where p2: "s1 = p2 @ s'" "set p2 \<subseteq> C" by blast
  from p1 p2 have "s = (p1 @ p2) @ s'" "set (p1 @ p2) \<subseteq> C" by simp_all
  then show ?case by blast
next
  case (Alt a b)
  from Alt.prems have "(s', g') \<in> set (mt a s g) \<or> (s', g') \<in> set (mt b s g)" by simp
  with Alt.IH Alt.prems(1) show ?case by auto
next
  case (Rep gr lo hi p)
  then obtain n where n: "n \<in> set (rep_counts gr lo hi p s)" and s': "s' = drop n s" by auto
  from take_takeWhile_set [OF rep_counts_le [OF n]] Rep.prems(1)
  have "set (take n s) \<subseteq> C" by auto
  moreover have "s = take n s @ s'" by (simp add: s')
  ultimately show ?case by blast
next
  case (Grp n a)
  from Grp.prems obtain g1 where "(s', g1) \<in> set (mt a s g)" by auto
  with Grp.IH Grp.prems(1) show ?case by simp
next
  case Eol
  then show ?case by (auto split: if_splits)
qed

lemma sublist_drop_prefix:
  assumes "sublist (c # w) (pre @ t)" and "c \<notin> set pre"
  shows "sublist (c # w) t"
proof -
  from assms(1) obtain ps ss where eq: "pre @ t = ps @ (c # w) @ ss" by (auto simp: sublist_def)
  have "length pre \<le> length ps"
  proof (rule ccontr)
    assume "\<not> length pre \<le> length ps"
    then have lt: "length ps < length pre" by simp
    then have "(pre @ t) ! length ps = pre ! length ps" by (simp add: nth_append)
    moreover have "(ps @ (c # w) @ ss) ! length ps = c" by (simp add: nth_append)
    ultimately have "pre ! length ps = c" using eq by simp
    with lt assms(2) show False by (metis nth_mem)
  qed
  then have "t = drop (length pre) (ps @ (c # w) @ ss)"
    using eq by (metis append_eq_conv_conj)
  also have "\<dots> = drop (length pre) ps @ (c # w) @ ss"
    using \<open>length pre \<le> length ps\<close> by simp
  finally show ?thesis by (auto simp: sublist_def)
qed

lemma sublist_lstrip:
  assumes "sublist (c # w) t" and "\<not> is_space c"
  shows "sublist (c # w) (lstrip t)"
proof -
  have "t = takeWhile is_space t @ lstrip t" by (simp add: lstrip_def)
  moreover have "c \<notin> set (takeWhile is_space t)"
    using assms(2) by (auto dest: set_takeWhileD)
  ultimately show ?thesis using sublist_drop_prefix [of c w "takeWhile is_space t" "lstrip t"] assms(1)
    by simp
qed

lemma sublist_rstrip:
  assumes "sublist w t" and "w \<noteq> []" and "\<not> is_space (last w)"
  shows "sublist w (rstrip t)"
proof -
  from assms(2) obtain c v where rw: "rev w = c # v" by (cases "rev w") auto
  with assms(3) have c: "\<not> is_space c" by (metis last_rev list.sel(1) rev_rev_ident hd_rev)
  from assms(1) have "sublist (rev w) (rev t)" by (simp add: sublist_rev)
  with rw c have "sublist (rev w) (lstrip (rev t))" using sublist_lstrip by metis
  then have "sublist (rev (rev w)) (rev (lstrip (rev t)))" by (simp only: sublist_rev)
  then show ?thesis by (simp add: rstrip_def lstrip_def)
qed

lemma is_space_not_r: "is_space c \<Longrightarrow> c \<noteq> CHR ''r''"
  by (auto simp: is_space_def)

lemma consumes_prefix_re: "consumes (- {CHR ''r''}) prefix_re"
  by (auto simp: prefix_re_def lit_def ch_def opt_def plus_def dest: is_space_not_r)

lemma sublist_strip_prefix:
  assumes "sublist (CHR ''r'' # w) t"
  shows "sublist (CHR ''r'' # w) (strip_prefix t)"
proof (cases "re_match prefix_re t")
  case None
  with assms show ?thesis by (simp add: strip_prefix_def)
next
  case (Some x)
  obtain rest g' where x: "x = (rest, g')" by (cases x)
  with Some have "(rest, g') \<in> set (mt prefix_re t Map.empty)"
    by (auto simp: re_match_def split: list.splits)
  from mt_consumes [OF consumes_prefix_re this]
  obtain pre where "t = pre @ rest" "CHR ''r'' \<notin> set pre" by auto
  with assms have "sublist (CHR ''r'' # w) rest" using sublist_drop_prefix by metis
  with Some x show ?thesis by (simp add: strip_prefix_def)
qed

lemma sublist_cleaned:
  assumes "sublist ''reentrancy'' (lower s)"
  shows "sublist ''reentrancy'' (cleaned s)"
proof -
  have "sublist ''reentrancy'' (lstrip (lower s))"
    using sublist_lstrip [OF assms] by (simp add: is_space_def)
  then have "sublist ''reentrancy'' (strip (lower s))"
    unfolding strip_def by (rule sublist_rstrip) (simp_all add: is_space_def)
  then show ?thesis unfolding cleaned_def by (rule sublist_strip_prefix)
qed

lemma first_label_first:
  assumes "map_of rows p = Some l" and "searches p s"
    and "\<forall>(q, l') \<in> set (takeWhile (\<lambda>r. fst r \<noteq> p) rows). \<not> searches q s"
  shows "first_label rows s = Some l"
  using assms by (induction rows s rule: first_label.induct) (auto split: if_splits)

lemma first_label_none:
  "\<forall>(q, l') \<in> set rows. \<not> searches q s \<Longrightarrow> first_label rows s = None"
  by (induction rows s rule: first_label.induct) auto


section \<open>The attack-type normalizer\<close>

lemma reentrancy_row: "map_of ATTACK_TYPE_MAPPING ''reentrancy'' = Some ''Reentrancy Attack''"
  by (simp add: ATTACK_TYPE_MAPPING_def)

text \<open>
  Claim C3, as stated, fails on the table: the phrase \<open>Weird New Bug Class\<close> contains
  \<open>bug\<close>, a key of the table, and is given the label of that key instead of its own
  title-cased text; and a phrase that contains \<open>reentrancy\<close> is given the label of an
  earlier key when one matches, here \<open>admin\<close>.
\<close>

theorem normalize_attack_type_counterexample:
  "normalize_attack_type ''Weird New Bug Class'' = ''Implementation Bug'' \<and>
   title ''Weird New Bug Class'' = ''Weird New Bug Class'' \<and>
   sublist ''reentrancy'' (lower ''Admin Reentrancy'') \<and>
   normalize_attack_type ''Admin Reentrancy'' = ''Access Control''"
proof -
  have "normalize_attack_type ''Weird New Bug Class'' = ''Implementation Bug''" by code_simp
  moreover have "title ''Weird New Bug Class'' = ''Weird New Bug Class''" by code_simp
  moreover have "lower ''Admin Reentrancy'' = ''admin '' @ ''reentrancy'' @ []" by code_simp
  then have "sublist ''reentrancy'' (lower ''Admin Reentrancy'')"
    unfolding sublist_def by blast
  moreover have "normalize_attack_type ''Admin Reentrancy'' = ''Access Control''" by code_simp
  ultimately show ?thesis by blast
qed

text \<open>
  Claim C3, amended. A phrase that contains \<open>reentrancy\<close> in any letter case is labelled
  \<open>Reentrancy Attack\<close> when no key placed before \<open>reentrancy\<close> in the table matches the
  cleaned phrase (lower-cased, trimmed, dismissive prefix removed). A non-empty phrase
  that no key matches is returned as the title-cased cleaned phrase. The empty phrase
  is labelled \<open>Unknown\<close>.
\<close>

theorem normalize_attack_type_table_order:
  "(sublist ''reentrancy'' (lower s) \<and> no_match (rows_before ''reentrancy'') (cleaned s)
    \<longrightarrow> normalize_attack_type s = ''Reentrancy Attack'') \<and>
   (s \<noteq> [] \<and> no_match ATTACK_TYPE_MAPPING (cleaned s)
    \<longrightarrow> normalize_attack_type s = title (cleaned s)) \<and>
   normalize_attack_type [] = ''Unknown''"
proof (intro conjI impI)
  assume a: "sublist ''reentrancy'' (lower s) \<and>
    no_match (rows_before ''reentrancy'') (cleaned s)"
  then have "lower s \<noteq> []" by auto
  then have ne: "s \<noteq> []" by (auto simp: lower_def)
  from a have "sublist ''reentrancy'' (cleaned s)" by (simp add: sublist_cleaned)
  then have "searches ''reentrancy'' (cleaned s)" by (simp add: searches_plain)
  from first_label_first [OF reentrancy_row this] a
  have "first_label ATTACK_TYPE_MAPPING (cleaned s) = Some ''Reentrancy Attack''"
    by (simp add: no_match_def rows_before_def)
  with ne show "normalize_attack_type s = ''Reentrancy Attack''"
    by (simp add: normalize_attack_type_def)
next
  assume "s \<noteq> [] \<and> no_match ATTACK_TYPE_MAPPING (cleaned s)"
  then show "normalize_attack_type s = title (cleaned s)"
    by (simp add: normalize_attack_type_def first_label_none no_match_def)
next
  show "normalize_attack_type [] = ''Unknown''" by (simp add: normalize_attack_type_def)
qed

text \<open>The hypotheses of the amended claim C3 hold at concrete phrases.\<close>

theorem normalize_attack_type_table_order_witness:
  "sublist ''reentrancy'' (lower ''Hack: Classic REENTRANCY'') \<and>
   no_match (rows_before ''reentrancy'') (cleaned ''Hack: Classic REENTRANCY'') \<and>
   normalize_attack_type ''Hack: Classic REENTRANCY'' = ''Reentrancy Attack'' \<and>
   no_match ATTACK_TYPE_MAPPING (cleaned ''Weird New Class'') \<and>
   normalize_attack_type ''Weird New Class'' = ''Weird New Class''"
proof -
  have l: "lower ''Hack: Classic REENTRANCY'' = ''hack: classic '' @ ''reentrancy'' @ []"
    by code_simp
  have 1: "sublist ''reentrancy'' (lower ''Hack: Classic REENTRANCY'')"
    unfolding l sublist_def by blast
  have 2: "no_match (rows_before ''reentrancy'') (cleaned ''Hack: Classic REENTRANCY'')"
    by code_simp
  have 3: "no_match ATTACK_TYPE_MAPPING (cleaned ''Weird New Class'')"
    by code_simp
  have 4: "title (cleaned ''Weird New Class'') = ''Weird New Class''" by code_simp
  from normalize_attack_type_table_order [of "''Hack: Classic REENTRANCY''"] 1 2
  have 5: "normalize_attack_type ''Hack: Classic REENTRANCY'' = ''Reentrancy Attack''" by blast
  from normalize_attack_type_table_order [of "''Weird New Class''"] 3
  have "normalize_attack_type ''Weird New Class'' = title (cleaned ''Weird New Class'')" by blast
  with 4 have 6: "normalize_attack_type ''Weird New Class'' = ''Weird New Class''" by simp
  from 1 2 3 5 6 show ?thesis by blast
qed


section \<open>The loss parser and the end-to-end scenario\<close>

text \<open>
  Claim C2 states that a loss line carrying \<open>6.8k USDC\<close> parses to 6800.0 USDC and
  one carrying \<open>1.7M US$\<close> to 1700000.0 USD. The first group of the loss pattern is
  lazy and everything after it may match the empty text, so the match stops after the
  first digit: the parser returns 6.0 USD and 1.0 USD. A text without a loss marker
  gives the soft failure 0.0 USD.
\<close>

theorem parse_loss_and_currency_compact:
  "parse_loss_and_currency ''Total Lost: 6.8k USDC'' = (Finite 6, ''USD'') \<and>
   parse_loss_and_currency ''Total Lost: 1.7M US$'' = (Finite 1, ''USD'') \<and>
   parse_loss_and_currency ''6.8k USDC'' = (Finite 0, ''USD'')"
  by code_simp

text \<open>
  Claim C1 states the record of the end-to-end scenario with the loss 1200000.0. For the
  artifact \<open>foo_artifact\<close>, an empty catalog and no overrides, \<^verbatim>\<open>update_incidents\<close> writes
  the record of the scenario in every field but the loss, which is 1.0.
\<close>

theorem update_incidents_foo:
  "update_incidents readme_stage Absent Absent [foo_artifact] None False =
     Inr [\<lparr>i_date = ''20250701'', i_name = ''foo'', i_type = ''Price Manipulation'',
           i_Lost = F (Finite 1), i_lossType = ''USD'',
           i_Contract = ''src/test/2025-07/foo_exp.sol'', i_chain = Some ''Arbitrum''\<rparr>]"
  by code_simp

end
